theory Spec2Isabelle
  imports Complex_Main
begin

section \<open>Data model\<close>

text \<open>
  The viewer animates a camera between two hand-captured poses. The numbers of the source
  are JavaScript numbers; they are modelled as real numbers, so every statement below is
  about exact arithmetic on the decimal constants of the source.

  A vector is an object with the three properties \<open>x\<close>, \<open>y\<close> and \<open>z\<close>. The fields are
  named \<open>vx\<close>, \<open>vy\<close>, \<open>vz\<close> here, so that \<open>x\<close>, \<open>y\<close> and \<open>z\<close> stay free for variables.
\<close>

record vec3 =
  vx :: real
  vy :: real
  vz :: real

text \<open>
  A pose as \<open>applyPose\<close> reads it (scrollTimeline.js): \<open>rigPos\<close>, \<open>rigRot\<close> and \<open>target\<close> are
  used without a test, \<open>camLocalPos\<close> and \<open>fov\<close> are tested for presence first, so these two
  are optional.
\<close>

record pose =
  rigPos :: vec3
  rigRot :: vec3
  camLocalPos :: "vec3 option"
  target :: vec3
  fov :: "real option"

text \<open>
  The object \<open>POSES\<close>. Each entry may be missing (\<open>undefined\<close> in the source, \<open>None\<close> here):
  \<open>applyPose\<close> tests for that.
\<close>

record poses =
  START :: "pose option"
  END :: "pose option"

definition START_pose :: pose where
  "START_pose =
     \<lparr>rigPos = \<lparr>vx = 0, vy = 0, vz = 0\<rparr>,
      rigRot = \<lparr>vx = 0, vy = 0.0767, vz = 0\<rparr>,
      camLocalPos = Some \<lparr>vx = 5.980239, vy = 1.034926, vz = 5.20704\<rparr>,
      target = \<lparr>vx = - 0.196162, vy = 0.000054, vz = 0.208513\<rparr>,
      fov = Some 30\<rparr>"

definition END_pose :: pose where
  "END_pose =
     \<lparr>rigPos = \<lparr>vx = 0, vy = 0, vz = 0\<rparr>,
      rigRot = \<lparr>vx = 0, vy = 0.0767, vz = 0\<rparr>,
      camLocalPos = Some \<lparr>vx = - 0.451684, vy = 0.210539, vz = 5.422854\<rparr>,
      target = \<lparr>vx = 0.048933, vy = 0.014605, vz = 0.111806\<rparr>,
      fov = Some 30\<rparr>"

definition POSES :: poses where
  "POSES = \<lparr>START = Some START_pose, END = Some END_pose\<rparr>"

record config =
  PIN_DISTANCE :: string
  SCRUB_SMOOTHING :: bool
  TRIGGER_START :: string
  TRIGGER_END :: string
  DEBUG :: bool

definition CONFIG :: config where
  "CONFIG =
     \<lparr>PIN_DISTANCE = ''+=200%'', SCRUB_SMOOTHING = True, TRIGGER_START = ''top top'',
      TRIGGER_END = ''+=200%'', DEBUG = False\<rparr>"

subsection \<open>The viewer state\<close>

text \<open>
  The objects the camera code works on: the camera rig, the camera, the target proxy and
  the orbit controls. Field writes of the source are field updates here. Calls into the
  rendering library whose effect lies inside the library (\<open>camera.updateProjectionMatrix()\<close>,
  \<open>controls.update()\<close>, \<open>camera.lookAt(x, y, z)\<close>) are recorded in \<open>calls\<close>, in the order they
  are made and with their arguments; console output is recorded in \<open>console\<close>. Message
  texts are kept without their pictograms.
\<close>

datatype call =
  UpdateProjectionMatrix
  | ControlsUpdate
  | CameraLookAt vec3

datatype console_arg = Str string | Fixed real nat

datatype console_msg = ConsoleLog "console_arg list" | ConsoleError "console_arg list"
  | ConsoleWarn "console_arg list"

record viewer =
  rig_position :: vec3
  rig_rotation :: vec3
  camera_position :: vec3
  camera_fov :: real
  targetProxy :: vec3
  controls_enabled :: bool
  controls_target :: vec3
  calls :: "call list"
  console :: "console_msg list"

type_synonym target_callback = "viewer \<Rightarrow> vec3 \<Rightarrow> viewer"

text \<open>
  The viewer as \<open>initViewer\<close> and the first lines of \<open>init\<close> leave it: rig at the origin,
  camera at \<open>(0, 2, 8)\<close> relative to the rig with a field of view of 30 degrees, orbit
  controls aimed at the origin and disabled, target proxy \<open>{x: 0, y: 0, z: 0}\<close>.
\<close>

definition initViewer :: viewer where
  "initViewer =
     \<lparr>rig_position = \<lparr>vx = 0, vy = 0, vz = 0\<rparr>,
      rig_rotation = \<lparr>vx = 0, vy = 0, vz = 0\<rparr>,
      camera_position = \<lparr>vx = 0, vy = 2, vz = 8\<rparr>,
      camera_fov = 30,
      targetProxy = \<lparr>vx = 0, vy = 0, vz = 0\<rparr>,
      controls_enabled = False,
      controls_target = \<lparr>vx = 0, vy = 0, vz = 0\<rparr>,
      calls = [],
      console = []\<rparr>"

text \<open>The handler of the key \<open>o\<close>: it flips the mode flag of the orbit controls.\<close>

definition toggleOrbitControls :: "viewer \<Rightarrow> viewer" where
  "toggleOrbitControls s =
     (let s1 = s\<lparr>controls_enabled := \<not> controls_enabled s\<rparr>
      in s1\<lparr>console := console s1 @
           [ConsoleLog [Str ''OrbitControls'',
              Str (if controls_enabled s1 then ''ENABLED'' else ''DISABLED'')]]\<rparr>)"

section \<open>Applying a pose\<close>

text \<open>
  \<open>gsap.set(object, vars)\<close> and \<open>Object.assign(object, source)\<close> copy the properties of
  their second argument onto the first; \<open>vector.set(x, y, z)\<close> writes the three components.
\<close>

definition gsap_set :: "vec3 \<Rightarrow> vec3 \<Rightarrow> vec3" where
  "gsap_set obj vars = obj\<lparr>vx := vx vars, vy := vy vars, vz := vz vars\<rparr>"

definition Object_assign :: "vec3 \<Rightarrow> vec3 \<Rightarrow> vec3" where
  "Object_assign obj src = obj\<lparr>vx := vx src, vy := vy src, vz := vz src\<rparr>"

definition vector_set :: "vec3 \<Rightarrow> real \<Rightarrow> real \<Rightarrow> real \<Rightarrow> vec3" where
  "vector_set v a b c = v\<lparr>vx := a, vy := b, vz := c\<rparr>"

text \<open>
  \<open>applyTarget\<close>, the closure of \<open>init\<close>: with the controls enabled the target goes into
  \<open>controls.target\<close> and the controls are updated, otherwise the camera looks at it.
\<close>

definition applyTarget :: target_callback where
  "applyTarget s t =
     (if controls_enabled s then
        (let s1 = s\<lparr>controls_target := vector_set (controls_target s) (vx t) (vy t) (vz t)\<rparr>
         in s1\<lparr>calls := calls s1 @ [ControlsUpdate]\<rparr>)
      else s\<lparr>calls := calls s @ [CameraLookAt \<lparr>vx = vx t, vy = vy t, vz = vz t\<rparr>]\<rparr>)"

text \<open>
  \<open>applyPose(cameraRig, camera, targetProxy, applyTarget, pose)\<close>. The three objects are
  the viewer state; the callback and the pose may be missing.
\<close>

definition applyPose :: "viewer \<Rightarrow> target_callback option \<Rightarrow> pose option \<Rightarrow> viewer" where
  "applyPose s applyTarget_opt pose_opt =
     (case pose_opt of
        None \<Rightarrow> s
      | Some p \<Rightarrow>
          (let s1 = s\<lparr>rig_position := gsap_set (rig_position s) (rigPos p)\<rparr>;
               s2 = s1\<lparr>rig_rotation := gsap_set (rig_rotation s1) (rigRot p)\<rparr>;
               s3 = (case camLocalPos p of
                       None \<Rightarrow> s2
                     | Some c \<Rightarrow> s2\<lparr>camera_position := gsap_set (camera_position s2) c\<rparr>);
               s4 = (case fov p of
                       None \<Rightarrow> s3
                     | Some f \<Rightarrow>
                         (let s3' = s3\<lparr>camera_fov := f\<rparr>
                          in s3'\<lparr>calls := calls s3' @ [UpdateProjectionMatrix]\<rparr>));
               s5 = s4\<lparr>targetProxy := Object_assign (targetProxy s4) (target p)\<rparr>
           in (case applyTarget_opt of
                 None \<Rightarrow> s5
               | Some f \<Rightarrow> f s5 (targetProxy s5))))"

text \<open>
  \<open>applyStartPose\<close> and \<open>applyEndPose\<close> read the module-level object \<open>POSES\<close>; it is their
  first argument here.
\<close>

definition applyStartPose :: "poses \<Rightarrow> viewer \<Rightarrow> target_callback option \<Rightarrow> viewer" where
  "applyStartPose P s applyTarget_opt =
     (let s1 = applyPose s applyTarget_opt (START P)
      in s1\<lparr>console := console s1 @ [ConsoleLog [Str ''Start pose applied'']]\<rparr>)"

definition applyEndPose :: "poses \<Rightarrow> viewer \<Rightarrow> target_callback option \<Rightarrow> viewer" where
  "applyEndPose P s applyTarget_opt =
     (let s1 = applyPose s applyTarget_opt (END P)
      in s1\<lparr>console := console s1 @ [ConsoleLog [Str ''End pose applied'']]\<rparr>)"

section \<open>The scroll timeline\<close>

text \<open>
  \<open>document.querySelector(selector)\<close>: the page is the list of the selectors that match
  an element of it.
\<close>

definition querySelector :: "string list \<Rightarrow> string \<Rightarrow> string option" where
  "querySelector document selector = (if selector \<in> set document then Some selector else None)"

text \<open>
  What the code can stop with. \<open>TypeError\<close> is JavaScript's error on reading a property of
  \<open>undefined\<close> (\<open>POSES.END.rigPos\<close> when \<open>POSES.END\<close> is missing). \<open>ConfigurationError\<close> is
  the error the specification names; no path of the source produces it.
\<close>

datatype js_error = TypeError | ConfigurationError

text \<open>
  A tween of the timeline, \<open>tl.to(object, {...end, ease: 'none'}, 0)\<close>: the animation library
  takes the current values of the animated properties as the start values and the given
  ones as the end values. In \<open>init\<close> nothing runs between the construction of the timeline
  and its first rendering, so the start values are taken from the viewer state at
  construction.
\<close>

record tween =
  tw_from :: vec3
  tw_to :: vec3

record timeline =
  tl_rig_position :: tween
  tl_rig_rotation :: tween
  tl_camera_position :: "tween option"
  tl_targetProxy :: tween
  tl_applyTarget :: "target_callback option"

text \<open>
  \<open>setupScrollTimeline(cameraRig, camera, targetProxy, applyTarget, sectionSelector)\<close>:
  \<open>null\<close> (here \<open>None\<close>) after an error message when the section is not in the page, else the
  timeline of the four tweens towards \<open>POSES.END\<close>; the tween of the camera position only
  when \<open>POSES.END.camLocalPos\<close> is there.
\<close>

definition setupScrollTimeline ::
  "poses \<Rightarrow> viewer \<Rightarrow> target_callback option \<Rightarrow> string \<Rightarrow> string list
    \<Rightarrow> js_error + (timeline option \<times> viewer)" where
  "setupScrollTimeline P s applyTarget_opt sectionSelector document =
     (case querySelector document sectionSelector of
        None \<Rightarrow>
          Inr (None, s\<lparr>console := console s @
                 [ConsoleError [Str ''Section'', Str sectionSelector, Str ''not found'']]\<rparr>)
      | Some section \<Rightarrow>
          (case END P of
             None \<Rightarrow> Inl TypeError
           | Some e \<Rightarrow>
               (let tline = \<lparr>tl_rig_position = \<lparr>tw_from = rig_position s, tw_to = rigPos e\<rparr>,
                          tl_rig_rotation = \<lparr>tw_from = rig_rotation s, tw_to = rigRot e\<rparr>,
                          tl_camera_position =
                            (case camLocalPos e of
                               None \<Rightarrow> None
                             | Some c \<Rightarrow> Some \<lparr>tw_from = camera_position s, tw_to = c\<rparr>),
                          tl_targetProxy = \<lparr>tw_from = targetProxy s, tw_to = target e\<rparr>,
                          tl_applyTarget = applyTarget_opt\<rparr>
                in Inr (Some tline, s\<lparr>console := console s @
                     [ConsoleLog [Str ''ScrollTrigger timeline created (pose-based with zoom)'']]\<rparr>))))"

text \<open>
  Modelled from the spec: the tween engine of the animation library (gsap), which is not
  among the sources. With \<open>ease: 'none'\<close> every animated scalar is
  \<open>start + (end - start) * progress\<close>, each property on its own.
\<close>

definition lerp :: "real \<Rightarrow> real \<Rightarrow> real \<Rightarrow> real" where
  "lerp a b t = a + (b - a) * t"

definition render_tween :: "tween \<Rightarrow> real \<Rightarrow> vec3 \<Rightarrow> vec3" where
  "render_tween tw t obj =
     obj\<lparr>vx := lerp (vx (tw_from tw)) (vx (tw_to tw)) t,
         vy := lerp (vy (tw_from tw)) (vy (tw_to tw)) t,
         vz := lerp (vz (tw_from tw)) (vz (tw_to tw)) t\<rparr>"

text \<open>
  Modelled from the spec: the animation and scroll libraries keep the progress inside
  \<open>[0, 1]\<close>; a value outside is clamped to the nearer end and the computation proceeds.
\<close>

definition clamp_progress :: "real \<Rightarrow> real" where
  "clamp_progress t = max 0 (min 1 t)"

text \<open>
  Modelled from the spec: how the animation library renders the timeline that the source
  builds. The progress is clamped; then the tweens are rendered in the order they were
  added, all at position 0 of the timeline, without side effects of the library's own;
  the \<open>onUpdate\<close> of the target tween, which is the source's, hands the target proxy to
  \<open>applyTarget\<close> when there is one.
\<close>

definition timeline_render :: "timeline \<Rightarrow> real \<Rightarrow> viewer \<Rightarrow> viewer" where
  "timeline_render tline t s =
     (let c = clamp_progress t;
          s1 = s\<lparr>rig_position := render_tween (tl_rig_position tline) c (rig_position s)\<rparr>;
          s2 = s1\<lparr>rig_rotation := render_tween (tl_rig_rotation tline) c (rig_rotation s1)\<rparr>;
          s3 = (case tl_camera_position tline of
                  None \<Rightarrow> s2
                | Some tw \<Rightarrow> s2\<lparr>camera_position := render_tween tw c (camera_position s2)\<rparr>);
          s4 = s3\<lparr>targetProxy := render_tween (tl_targetProxy tline) c (targetProxy s3)\<rparr>
      in (case tl_applyTarget tline of
            None \<Rightarrow> s4
          | Some f \<Rightarrow> f s4 (targetProxy s4)))"

text \<open>
  The \<open>onUpdate\<close> callback of the scroll trigger: it prints the progress when
  \<open>CONFIG.DEBUG\<close> is set, and does nothing else.
\<close>

definition scrollTrigger_onUpdate :: "viewer \<Rightarrow> real \<Rightarrow> viewer" where
  "scrollTrigger_onUpdate s progress =
     (if DEBUG CONFIG
      then s\<lparr>console := console s @ [ConsoleLog [Str ''Scroll progress:'', Fixed progress 3]]\<rparr>
      else s)"

text \<open>
  One scroll event: the timeline is rendered at the progress, then the callback runs with
  the progress of the scroll trigger, which is the clamped one.
\<close>

definition scrollUpdate :: "timeline \<Rightarrow> real \<Rightarrow> viewer \<Rightarrow> viewer" where
  "scrollUpdate tline progress s =
     scrollTrigger_onUpdate (timeline_render tline progress s) (clamp_progress progress)"

text \<open>A session of scroll events, in the order they arrive.\<close>

fun scroll_run :: "timeline \<Rightarrow> real list \<Rightarrow> viewer \<Rightarrow> viewer" where
  "scroll_run tline [] s = s"
| "scroll_run tline (p # ps) s = scroll_run tline ps (scrollUpdate tline p s)"

text \<open>
  The camera part of \<open>init\<close>: the start pose is applied once model and lighting are
  ready, then the timeline is set up on the default section, both with the closure
  \<open>applyTarget\<close>.
\<close>

definition init :: "poses \<Rightarrow> viewer \<Rightarrow> string list \<Rightarrow> js_error + (timeline option \<times> viewer)" where
  "init P s document =
     (let s1 = applyStartPose P s (Some applyTarget)
      in (case setupScrollTimeline P s1 (Some applyTarget) ''#viewer-section'' document of
            Inl e \<Rightarrow> Inl e
          | Inr (tline, s2) \<Rightarrow>
              Inr (tline, s2\<lparr>console := console s2 @
                     [ConsoleLog [Str ''ScrollTrigger timeline created (pose-based)'']]\<rparr>)))"

section \<open>What is observed\<close>

text \<open>
  The camera state of a viewer, in the shape of a pose: rig position and rotation, camera
  position relative to the rig, target and field of view.
\<close>

definition camera_state :: "viewer \<Rightarrow> pose" where
  "camera_state s =
     \<lparr>rigPos = rig_position s, rigRot = rig_rotation s,
      camLocalPos = Some (camera_position s), target = targetProxy s,
      fov = Some (camera_fov s)\<rparr>"

text \<open>The library calls made on the way from one state to a later one.\<close>

definition issued :: "viewer \<Rightarrow> viewer \<Rightarrow> call list" where
  "issued s s' = drop (length (calls s)) (calls s')"

text \<open>The viewer without the two logs: the values of the objects themselves.\<close>

definition observable :: "viewer \<Rightarrow> viewer" where
  "observable s = s\<lparr>calls := [], console := []\<rparr>"

text \<open>
  The interpolation as the specification words it: every scalar field of the result is
  \<open>start + (end - start) * progress\<close>, field by field.
\<close>

definition spec_lerp3 :: "vec3 \<Rightarrow> vec3 \<Rightarrow> real \<Rightarrow> vec3" where
  "spec_lerp3 a b t =
     \<lparr>vx = vx a + (vx b - vx a) * t, vy = vy a + (vy b - vy a) * t,
      vz = vz a + (vz b - vz a) * t\<rparr>"

definition spec_interpolate :: "pose \<Rightarrow> pose \<Rightarrow> real \<Rightarrow> pose" where
  "spec_interpolate a b t =
     \<lparr>rigPos = spec_lerp3 (rigPos a) (rigPos b) t,
      rigRot = spec_lerp3 (rigRot a) (rigRot b) t,
      camLocalPos =
        (case (camLocalPos a, camLocalPos b) of
           (Some c, Some d) \<Rightarrow> Some (spec_lerp3 c d t)
         | _ \<Rightarrow> None),
      target = spec_lerp3 (target a) (target b) t,
      fov =
        (case (fov a, fov b) of
           (Some f, Some g) \<Rightarrow> Some (f + (g - f) * t)
         | _ \<Rightarrow> None)\<rparr>"

text \<open>
  A value between two bounds, whichever of the two is the smaller, both included; the
  same for every component of a vector and every scalar field of a pose.
\<close>

definition between :: "real \<Rightarrow> real \<Rightarrow> real \<Rightarrow> bool" where
  "between a b v \<longleftrightarrow> min a b \<le> v \<and> v \<le> max a b"

definition between3 :: "vec3 \<Rightarrow> vec3 \<Rightarrow> vec3 \<Rightarrow> bool" where
  "between3 a b v \<longleftrightarrow>
     between (vx a) (vx b) (vx v) \<and> between (vy a) (vy b) (vy v) \<and> between (vz a) (vz b) (vz v)"

definition pose_between :: "pose \<Rightarrow> pose \<Rightarrow> pose \<Rightarrow> bool" where
  "pose_between a b v \<longleftrightarrow>
     between3 (rigPos a) (rigPos b) (rigPos v) \<and>
     between3 (rigRot a) (rigRot b) (rigRot v) \<and>
     (case (camLocalPos a, camLocalPos b, camLocalPos v) of
        (Some c, Some d, Some e) \<Rightarrow> between3 c d e
      | _ \<Rightarrow> False) \<and>
     between3 (target a) (target b) (target v) \<and>
     (case (fov a, fov b, fov v) of
        (Some f, Some g, Some h) \<Rightarrow> between f g h
      | _ \<Rightarrow> False)"

text \<open>
  The example scenario of the specification: the two poses with the targets
  \<open>(-0.196, 0.0001, 0.209)\<close> and \<open>(0.049, 0.015, 0.112)\<close> and a field of view of 30, the other
  fields as in \<open>POSES\<close>.
\<close>

definition SPEC_EXAMPLE :: poses where
  "SPEC_EXAMPLE =
     \<lparr>START = Some (START_pose\<lparr>target := \<lparr>vx = - 0.196, vy = 0.0001, vz = 0.209\<rparr>\<rparr>),
      END = Some (END_pose\<lparr>target := \<lparr>vx = 0.049, vy = 0.015, vz = 0.112\<rparr>\<rparr>)\<rparr>"

text \<open>
  The timeline and the viewer that \<open>init\<close> yields with the configured poses, from the
  viewer of \<open>initViewer\<close> on a page that has the section (lemma \<open>init_started\<close> below).
\<close>

definition started_timeline :: timeline where
  "started_timeline =
     \<lparr>tl_rig_position = \<lparr>tw_from = \<lparr>vx = 0, vy = 0, vz = 0\<rparr>, tw_to = \<lparr>vx = 0, vy = 0, vz = 0\<rparr>\<rparr>,
      tl_rig_rotation =
        \<lparr>tw_from = \<lparr>vx = 0, vy = 0.0767, vz = 0\<rparr>, tw_to = \<lparr>vx = 0, vy = 0.0767, vz = 0\<rparr>\<rparr>,
      tl_camera_position =
        Some \<lparr>tw_from = \<lparr>vx = 5.980239, vy = 1.034926, vz = 5.20704\<rparr>,
              tw_to = \<lparr>vx = - 0.451684, vy = 0.210539, vz = 5.422854\<rparr>\<rparr>,
      tl_targetProxy =
        \<lparr>tw_from = \<lparr>vx = - 0.196162, vy = 0.000054, vz = 0.208513\<rparr>,
         tw_to = \<lparr>vx = 0.048933, vy = 0.014605, vz = 0.111806\<rparr>\<rparr>,
      tl_applyTarget = Some applyTarget\<rparr>"

definition started_viewer :: viewer where
  "started_viewer =
     \<lparr>rig_position = \<lparr>vx = 0, vy = 0, vz = 0\<rparr>,
      rig_rotation = \<lparr>vx = 0, vy = 0.0767, vz = 0\<rparr>,
      camera_position = \<lparr>vx = 5.980239, vy = 1.034926, vz = 5.20704\<rparr>,
      camera_fov = 30,
      targetProxy = \<lparr>vx = - 0.196162, vy = 0.000054, vz = 0.208513\<rparr>,
      controls_enabled = False,
      controls_target = \<lparr>vx = 0, vy = 0, vz = 0\<rparr>,
      calls = [UpdateProjectionMatrix,
               CameraLookAt \<lparr>vx = - 0.196162, vy = 0.000054, vz = 0.208513\<rparr>],
      console = [ConsoleLog [Str ''Start pose applied''],
                 ConsoleLog [Str ''ScrollTrigger timeline created (pose-based with zoom)''],
                 ConsoleLog [Str ''ScrollTrigger timeline created (pose-based)'']]\<rparr>"


section \<open>Helper facts\<close>

lemma gsap_set_eq [simp]: "gsap_set obj vars = vars"
  by (simp add: gsap_set_def)

lemma Object_assign_eq [simp]: "Object_assign obj src = src"
  by (simp add: Object_assign_def)

lemma vector_set_eq [simp]: "vector_set v (vx t) (vy t) (vz t) = t"
  by (simp add: vector_set_def)

lemma initViewer_fields:
  "\<not> controls_enabled initViewer" "calls initViewer = []" "console initViewer = []"
  "camera_position initViewer = \<lparr>vx = 0, vy = 2, vz = 8\<rparr>" "camera_fov initViewer = 30"
  by (simp_all add: initViewer_def)

lemma applyTarget_enabled:
  "controls_enabled s \<Longrightarrow>
     applyTarget s t = s\<lparr>controls_target := t, calls := calls s @ [ControlsUpdate]\<rparr>"
  by (simp add: applyTarget_def)

lemma applyTarget_locked:
  "\<not> controls_enabled s \<Longrightarrow> applyTarget s t = s\<lparr>calls := calls s @ [CameraLookAt t]\<rparr>"
  by (simp add: applyTarget_def)

lemma applyPose_Some_None:
  "applyPose s None (Some p) =
     s\<lparr>rig_position := rigPos p, rig_rotation := rigRot p,
       camera_position := (case camLocalPos p of None \<Rightarrow> camera_position s | Some c \<Rightarrow> c),
       camera_fov := (case fov p of None \<Rightarrow> camera_fov s | Some f \<Rightarrow> f),
       calls := (case fov p of None \<Rightarrow> calls s | Some f \<Rightarrow> calls s @ [UpdateProjectionMatrix]),
       targetProxy := target p\<rparr>"
  by (simp add: applyPose_def Let_def split: option.splits)

lemma applyPose_Some_cb:
  "applyPose s (Some f) (Some p) = f (applyPose s None (Some p)) (target p)"
  by (simp add: applyPose_def Let_def split: option.splits)

lemma applyPose_base_calls:
  "calls (applyPose s None (Some p)) =
     calls s @ (case fov p of None \<Rightarrow> [] | Some f \<Rightarrow> [UpdateProjectionMatrix])"
  by (simp add: applyPose_Some_None split: option.splits)

lemma applyPose_base_enabled:
  "controls_enabled (applyPose s None (Some p)) = controls_enabled s"
  by (simp add: applyPose_Some_None)

lemma applyPose_enabled:
  "controls_enabled s \<Longrightarrow>
     applyPose s (Some applyTarget) (Some p) =
       (applyPose s None (Some p))
         \<lparr>controls_target := target p,
          calls := calls (applyPose s None (Some p)) @ [ControlsUpdate]\<rparr>"
  by (simp add: applyPose_Some_cb applyTarget_enabled applyPose_base_enabled)

lemma applyPose_locked:
  "\<not> controls_enabled s \<Longrightarrow>
     applyPose s (Some applyTarget) (Some p) =
       (applyPose s None (Some p))
         \<lparr>calls := calls (applyPose s None (Some p)) @ [CameraLookAt (target p)]\<rparr>"
  by (simp add: applyPose_Some_cb applyTarget_locked applyPose_base_enabled)

section \<open>Applying the target: the two modes\<close>

text \<open>
  Claim C5. For every viewer state and every target, \<open>applyTarget\<close> in free-look mode
  (controls enabled) writes the target into \<open>controls.target\<close> and calls
  \<open>controls.update()\<close>; in locked mode (controls disabled) it calls \<open>camera.lookAt\<close> with the
  target and leaves \<open>controls.target\<close> alone. The calls made by one application are exactly
  one of \<open>[ControlsUpdate]\<close> and \<open>[CameraLookAt t]\<close>, never both. The flag is read at each
  application: after the key \<open>o\<close> has flipped it, the next application takes the other
  path.
\<close>

theorem applyTarget_mode_switch:
  "applyTarget s t =
     (if controls_enabled s
      then s\<lparr>controls_target := t, calls := calls s @ [ControlsUpdate]\<rparr>
      else s\<lparr>calls := calls s @ [CameraLookAt t]\<rparr>)
   \<and> issued s (applyTarget s t) =
       (if controls_enabled s then [ControlsUpdate] else [CameraLookAt t])
   \<and> issued (toggleOrbitControls (applyTarget s t))
        (applyTarget (toggleOrbitControls (applyTarget s t)) t) =
       (if controls_enabled s then [CameraLookAt t] else [ControlsUpdate])"
  by (simp add: applyTarget_enabled applyTarget_locked issued_def toggleOrbitControls_def)

theorem applyTarget_mode_switch_witness:
  "issued initViewer (applyTarget initViewer \<lparr>vx = 1, vy = 2, vz = 3\<rparr>) =
     [CameraLookAt \<lparr>vx = 1, vy = 2, vz = 3\<rparr>]
   \<and> issued (toggleOrbitControls (applyTarget initViewer \<lparr>vx = 1, vy = 2, vz = 3\<rparr>))
        (applyTarget (toggleOrbitControls (applyTarget initViewer \<lparr>vx = 1, vy = 2, vz = 3\<rparr>))
           \<lparr>vx = 1, vy = 2, vz = 3\<rparr>) = [ControlsUpdate]"
proof -
  have locked: "\<not> controls_enabled initViewer"
    by (simp add: initViewer_def)
  show ?thesis
    using applyTarget_mode_switch [of initViewer "\<lparr>vx = 1, vy = 2, vz = 3\<rparr>", THEN conjunct2]
      locked
    by simp
qed

section \<open>Applying a pose: missing and partial poses\<close>

text \<open>
  Claim C9. \<open>applyPose\<close> called with a missing pose returns at once and leaves the whole
  viewer state as it was, whatever the callback: rig position and rotation, camera
  position and field of view, target proxy, controls target, and both logs, so that no
  library call is made and \<open>applyTarget\<close> is not invoked.
\<close>

theorem applyPose_missing_pose_unchanged:
  "applyPose s cb None = s"
  by (simp add: applyPose_def)

theorem applyPose_missing_pose_unchanged_witness:
  "applyPose initViewer (Some applyTarget) None = initViewer"
  using applyPose_missing_pose_unchanged [of initViewer "Some applyTarget"]
  by simp

text \<open>
  Claim C10. \<open>applyPose\<close> accepts a partly specified pose. For every pose, with the
  closure \<open>applyTarget\<close> or with no callback, the rig position, the rig rotation and the
  target proxy take the values of the pose, and with the closure the target reaches the
  controls (free-look mode) or the camera (locked mode). The camera position changes only
  when \<open>camLocalPos\<close> is there; the field of view changes only when \<open>fov\<close> is there, and
  \<open>updateProjectionMatrix\<close> is called exactly in that case.
\<close>

theorem applyPose_partial_pose:
  assumes cb: "cb \<in> {None, Some applyTarget}" and s': "s' = applyPose s cb (Some p)"
  shows "rig_position s' = rigPos p \<and> rig_rotation s' = rigRot p \<and> targetProxy s' = target p
     \<and> (cb = Some applyTarget \<longrightarrow>
          (if controls_enabled s
           then controls_target s' = target p \<and> last (calls s') = ControlsUpdate
           else last (calls s') = CameraLookAt (target p)))
     \<and> camera_position s' = (case camLocalPos p of None \<Rightarrow> camera_position s | Some c \<Rightarrow> c)
     \<and> camera_fov s' = (case fov p of None \<Rightarrow> camera_fov s | Some f \<Rightarrow> f)
     \<and> (UpdateProjectionMatrix \<in> set (issued s s')) = (fov p \<noteq> None)"
proof -
  consider (none) "cb = None"
    | (free) "cb = Some applyTarget" "controls_enabled s"
    | (locked) "cb = Some applyTarget" "\<not> controls_enabled s"
    using cb by auto
  then show ?thesis
  proof cases
    case none
    then show ?thesis
      unfolding s'
      by (cases "fov p"; cases "camLocalPos p"; simp add: applyPose_Some_None issued_def)
  next
    case free
    then show ?thesis
      unfolding s'
      by (cases "fov p"; cases "camLocalPos p";
          simp add: applyPose_enabled applyPose_base_calls issued_def applyPose_Some_None)
  next
    case locked
    then show ?thesis
      unfolding s'
      by (cases "fov p"; cases "camLocalPos p";
          simp add: applyPose_locked applyPose_base_calls issued_def applyPose_Some_None)
  qed
qed

theorem applyPose_partial_pose_witness:
  "Some applyTarget \<in> {None, Some applyTarget}
   \<and> camera_position
        (applyPose initViewer (Some applyTarget)
           (Some (START_pose\<lparr>camLocalPos := None, fov := None\<rparr>))) = \<lparr>vx = 0, vy = 2, vz = 8\<rparr>
   \<and> camera_fov
        (applyPose initViewer (Some applyTarget)
           (Some (START_pose\<lparr>camLocalPos := None, fov := None\<rparr>))) = 30
   \<and> targetProxy
        (applyPose initViewer (Some applyTarget)
           (Some (START_pose\<lparr>camLocalPos := None, fov := None\<rparr>))) =
       \<lparr>vx = - 0.196162, vy = 0.000054, vz = 0.208513\<rparr>
   \<and> UpdateProjectionMatrix \<notin> set (issued initViewer
        (applyPose initViewer (Some applyTarget)
           (Some (START_pose\<lparr>camLocalPos := None, fov := None\<rparr>))))"
  using applyPose_partial_pose [of "Some applyTarget"
      "applyPose initViewer (Some applyTarget)
         (Some (START_pose\<lparr>camLocalPos := None, fov := None\<rparr>))"
      initViewer "START_pose\<lparr>camLocalPos := None, fov := None\<rparr>"]
    initViewer_fields
  by (simp add: START_pose_def)

section \<open>Applying a pose twice\<close>

text \<open>
  Claim C7. Applying the same pose twice in succession, with the closure \<open>applyTarget\<close> or
  with no callback, leaves every object of the viewer (rig, camera, target proxy,
  controls) with the values one application gives, and the second application makes the
  same library calls with the same arguments as the first. What the library does inside
  \<open>controls.update()\<close> and \<open>camera.lookAt\<close> is not part of the sources; those calls are
  compared as calls.
\<close>

theorem applyPose_twice:
  assumes cb: "cb \<in> {None, Some applyTarget}"
  shows "observable (applyPose (applyPose s cb (Some p)) cb (Some p)) =
       observable (applyPose s cb (Some p))
     \<and> issued (applyPose s cb (Some p)) (applyPose (applyPose s cb (Some p)) cb (Some p)) =
       issued s (applyPose s cb (Some p))"
proof -
  consider (none) "cb = None"
    | (free) "cb = Some applyTarget" "controls_enabled s"
    | (locked) "cb = Some applyTarget" "\<not> controls_enabled s"
    using cb by auto
  then show ?thesis
  proof cases
    case none
    then show ?thesis
      by (simp add: applyPose_Some_None issued_def observable_def split: option.splits)
  next
    case free
    then have "controls_enabled (applyPose s (Some applyTarget) (Some p))"
      by (simp add: applyPose_enabled applyPose_base_enabled)
    with free show ?thesis
      by (simp add: applyPose_enabled [of "applyPose s (Some applyTarget) (Some p)"])
         (simp add: applyPose_enabled applyPose_Some_None issued_def observable_def
           split: option.splits)
  next
    case locked
    then have "\<not> controls_enabled (applyPose s (Some applyTarget) (Some p))"
      by (simp add: applyPose_locked applyPose_base_enabled)
    with locked show ?thesis
      by (simp add: applyPose_locked [of "applyPose s (Some applyTarget) (Some p)"])
         (simp add: applyPose_locked applyPose_Some_None issued_def observable_def
           split: option.splits)
  qed
qed

theorem applyPose_twice_witness:
  "Some applyTarget \<in> {None, Some applyTarget}
   \<and> observable (applyPose (applyPose initViewer (Some applyTarget) (Some END_pose))
        (Some applyTarget) (Some END_pose)) =
       observable (applyPose initViewer (Some applyTarget) (Some END_pose))
   \<and> issued (applyPose initViewer (Some applyTarget) (Some END_pose))
        (applyPose (applyPose initViewer (Some applyTarget) (Some END_pose))
           (Some applyTarget) (Some END_pose)) =
       [UpdateProjectionMatrix, CameraLookAt \<lparr>vx = 0.048933, vy = 0.014605, vz = 0.111806\<rparr>]"
proof -
  have "issued initViewer (applyPose initViewer (Some applyTarget) (Some END_pose)) =
      [UpdateProjectionMatrix, CameraLookAt \<lparr>vx = 0.048933, vy = 0.014605, vz = 0.111806\<rparr>]"
    using initViewer_fields
    by (simp add: applyPose_locked applyPose_Some_None issued_def END_pose_def)
  then show ?thesis
    using applyPose_twice [of "Some applyTarget" initViewer END_pose]
    by simp
qed

section \<open>The scroll timeline: helper facts\<close>

lemma init_started:
  "init POSES initViewer [''#viewer-section''] = Inr (Some started_timeline, started_viewer)"
  by (simp add: init_def setupScrollTimeline_def querySelector_def applyStartPose_def
      applyPose_Some_cb applyPose_Some_None applyTarget_def POSES_def Let_def initViewer_def
      START_pose_def END_pose_def started_timeline_def started_viewer_def)

lemma applyTarget_frame [simp]:
  "rig_position (applyTarget s t) = rig_position s"
  "rig_rotation (applyTarget s t) = rig_rotation s"
  "camera_position (applyTarget s t) = camera_position s"
  "camera_fov (applyTarget s t) = camera_fov s"
  "targetProxy (applyTarget s t) = targetProxy s"
  "controls_enabled (applyTarget s t) = controls_enabled s"
  "console (applyTarget s t) = console s"
  by (simp_all add: applyTarget_def Let_def)

lemma render_tween_eq: "render_tween tw t obj = spec_lerp3 (tw_from tw) (tw_to tw) t"
  by (simp add: render_tween_def spec_lerp3_def lerp_def)

lemma scrollTrigger_onUpdate_eq: "scrollTrigger_onUpdate s p = s"
  by (simp add: scrollTrigger_onUpdate_def CONFIG_def)

lemma clamp_unit: "0 \<le> t \<Longrightarrow> t \<le> 1 \<Longrightarrow> clamp_progress t = t"
  by (simp add: clamp_progress_def)

lemma clamp_outside:
  "t < 0 \<Longrightarrow> clamp_progress t = 0" "1 < t \<Longrightarrow> clamp_progress t = 1"
  by (simp_all add: clamp_progress_def)

lemma clamp_idem: "clamp_progress (clamp_progress t) = clamp_progress t"
  by (simp add: clamp_progress_def)

lemma timeline_render_clamped:
  "timeline_render tline (clamp_progress t) s = timeline_render tline t s"
  by (simp add: timeline_render_def clamp_idem)

lemma timeline_render_state:
  assumes "tl_applyTarget tline = Some applyTarget" and "tl_camera_position tline = Some tw"
  shows "camera_state (timeline_render tline t v) =
     \<lparr>rigPos = spec_lerp3 (tw_from (tl_rig_position tline)) (tw_to (tl_rig_position tline))
        (clamp_progress t),
      rigRot = spec_lerp3 (tw_from (tl_rig_rotation tline)) (tw_to (tl_rig_rotation tline))
        (clamp_progress t),
      camLocalPos = Some (spec_lerp3 (tw_from tw) (tw_to tw) (clamp_progress t)),
      target = spec_lerp3 (tw_from (tl_targetProxy tline)) (tw_to (tl_targetProxy tline))
        (clamp_progress t),
      fov = Some (camera_fov v)\<rparr>"
  using assms by (simp add: timeline_render_def camera_state_def render_tween_eq Let_def)

lemma timeline_render_target:
  "tl_applyTarget tline = Some applyTarget \<Longrightarrow>
     targetProxy (timeline_render tline t v) =
       spec_lerp3 (tw_from (tl_targetProxy tline)) (tw_to (tl_targetProxy tline))
         (clamp_progress t)"
  by (simp add: timeline_render_def render_tween_eq Let_def split: option.splits)

lemma timeline_render_fov:
  "tl_applyTarget tline = Some applyTarget \<Longrightarrow>
     camera_fov (timeline_render tline t v) = camera_fov v"
  by (simp add: timeline_render_def Let_def split: option.splits)

lemma timeline_render_console:
  "tl_applyTarget tline \<in> {None, Some applyTarget} \<Longrightarrow>
     console (timeline_render tline t s) = console s"
  by (auto simp add: timeline_render_def Let_def split: option.splits)

lemma scroll_run_fov:
  "tl_applyTarget tline = Some applyTarget \<Longrightarrow>
     camera_fov (scroll_run tline ps v) = camera_fov v"
  by (induction ps arbitrary: v)
     (simp_all add: scrollUpdate_def scrollTrigger_onUpdate_eq timeline_render_fov)

text \<open>
  The field of view is not among the tweens: after \<open>init\<close> it keeps the value the start
  pose gave it, whatever is scrolled. The other fields are those of the tweens, which
  start at the start pose, because \<open>init\<close> applies it before it builds the timeline.
\<close>

lemma init_scroll_state:
  assumes P: "START P = Some a" "END P = Some b"
    and full: "camLocalPos a = Some ca" "camLocalPos b = Some cb" "fov a = Some f"
    and doc: "''#viewer-section'' \<in> set document"
  shows "\<exists>tline s'. init P s document = Inr (Some tline, s') \<and>
     (\<forall>ps p. camera_state (scrollUpdate tline p (scroll_run tline ps s')) =
        \<lparr>rigPos = spec_lerp3 (rigPos a) (rigPos b) (clamp_progress p),
         rigRot = spec_lerp3 (rigRot a) (rigRot b) (clamp_progress p),
         camLocalPos = Some (spec_lerp3 ca cb (clamp_progress p)),
         target = spec_lerp3 (target a) (target b) (clamp_progress p),
         fov = Some f\<rparr>)"
proof -
  define s1 where "s1 = applyStartPose P s (Some applyTarget)"
  define tline where "tline =
     \<lparr>tl_rig_position = \<lparr>tw_from = rigPos a, tw_to = rigPos b\<rparr>,
      tl_rig_rotation = \<lparr>tw_from = rigRot a, tw_to = rigRot b\<rparr>,
      tl_camera_position = Some \<lparr>tw_from = ca, tw_to = cb\<rparr>,
      tl_targetProxy = \<lparr>tw_from = target a, tw_to = target b\<rparr>,
      tl_applyTarget = Some applyTarget\<rparr>"
  have s1: "rig_position s1 = rigPos a" "rig_rotation s1 = rigRot a" "camera_position s1 = ca"
    "targetProxy s1 = target a" "camera_fov s1 = f"
    using P full
    by (simp_all add: s1_def applyStartPose_def applyPose_Some_cb applyPose_Some_None Let_def)
  obtain s' where init: "init P s document = Inr (Some tline, s')" and fov': "camera_fov s' = f"
    using P full doc s1
    by (simp add: init_def setupScrollTimeline_def querySelector_def Let_def tline_def
        s1_def [symmetric])
  have cb: "tl_applyTarget tline = Some applyTarget"
    and cam: "tl_camera_position tline = Some \<lparr>tw_from = ca, tw_to = cb\<rparr>"
    by (simp_all add: tline_def)
  have "camera_state (scrollUpdate tline p (scroll_run tline ps s')) =
        \<lparr>rigPos = spec_lerp3 (rigPos a) (rigPos b) (clamp_progress p),
         rigRot = spec_lerp3 (rigRot a) (rigRot b) (clamp_progress p),
         camLocalPos = Some (spec_lerp3 ca cb (clamp_progress p)),
         target = spec_lerp3 (target a) (target b) (clamp_progress p),
         fov = Some f\<rparr>" for ps p
    unfolding scrollUpdate_def scrollTrigger_onUpdate_eq timeline_render_state [OF cb cam]
    by (simp add: scroll_run_fov [OF cb] fov') (simp add: tline_def)
  with init show ?thesis by blast
qed

text \<open>
  The target and the field of view alone, for poses that may lack \<open>camLocalPos\<close>: the
  target tween is built whatever the other fields are.
\<close>

lemma init_scroll_target:
  assumes P: "START P = Some a" "END P = Some b" and f: "fov a = Some f"
    and doc: "''#viewer-section'' \<in> set document"
  shows "\<exists>tline s'. init P s document = Inr (Some tline, s') \<and>
     (\<forall>ps p. target (camera_state (scrollUpdate tline p (scroll_run tline ps s'))) =
          spec_lerp3 (target a) (target b) (clamp_progress p) \<and>
        fov (camera_state (scrollUpdate tline p (scroll_run tline ps s'))) = Some f)"
proof -
  define s1 where "s1 = applyStartPose P s (Some applyTarget)"
  define tline where "tline =
     \<lparr>tl_rig_position = \<lparr>tw_from = rig_position s1, tw_to = rigPos b\<rparr>,
      tl_rig_rotation = \<lparr>tw_from = rig_rotation s1, tw_to = rigRot b\<rparr>,
      tl_camera_position =
        (case camLocalPos b of
           None \<Rightarrow> None
         | Some c \<Rightarrow> Some \<lparr>tw_from = camera_position s1, tw_to = c\<rparr>),
      tl_targetProxy = \<lparr>tw_from = target a, tw_to = target b\<rparr>,
      tl_applyTarget = Some applyTarget\<rparr>"
  have s1: "targetProxy s1 = target a" "camera_fov s1 = f"
    using P f
    by (simp_all add: s1_def applyStartPose_def applyPose_Some_cb applyPose_Some_None Let_def)
  obtain s' where init: "init P s document = Inr (Some tline, s')" and fov': "camera_fov s' = f"
    using P doc s1
    by (simp add: init_def setupScrollTimeline_def querySelector_def Let_def tline_def
        s1_def [symmetric])
  have cb: "tl_applyTarget tline = Some applyTarget"
    and tg: "tl_targetProxy tline = \<lparr>tw_from = target a, tw_to = target b\<rparr>"
    by (simp_all add: tline_def)
  have "target (camera_state (scrollUpdate tline p (scroll_run tline ps s'))) =
          spec_lerp3 (target a) (target b) (clamp_progress p) \<and>
        fov (camera_state (scrollUpdate tline p (scroll_run tline ps s'))) = Some f" for ps p
    by (simp add: camera_state_def scrollUpdate_def scrollTrigger_onUpdate_eq
        timeline_render_target [OF cb] timeline_render_fov [OF cb] scroll_run_fov [OF cb]
        fov' tg)
  with init show ?thesis by blast
qed

lemma POSES_full:
  "START POSES = Some START_pose" "END POSES = Some END_pose"
  "camLocalPos START_pose = Some \<lparr>vx = 5.980239, vy = 1.034926, vz = 5.20704\<rparr>"
  "camLocalPos END_pose = Some \<lparr>vx = - 0.451684, vy = 0.210539, vz = 5.422854\<rparr>"
  "fov START_pose = Some 30" "fov END_pose = Some 30"
  by (simp_all add: POSES_def START_pose_def END_pose_def)

lemma spec_interpolate_full:
  assumes "camLocalPos a = Some ca" "camLocalPos b = Some cb" "fov a = Some f" "fov b = Some f"
  shows "spec_interpolate a b t =
     \<lparr>rigPos = spec_lerp3 (rigPos a) (rigPos b) t,
      rigRot = spec_lerp3 (rigRot a) (rigRot b) t,
      camLocalPos = Some (spec_lerp3 ca cb t),
      target = spec_lerp3 (target a) (target b) t,
      fov = Some f\<rparr>"
  using assms by (simp add: spec_interpolate_def)

lemma configured_scroll_state:
  assumes "''#viewer-section'' \<in> set document"
  shows "\<exists>tline s'. init POSES s document = Inr (Some tline, s') \<and>
     (\<forall>ps p. camera_state (scrollUpdate tline p (scroll_run tline ps s')) =
        spec_interpolate START_pose END_pose (clamp_progress p))"
  using init_scroll_state [OF POSES_full(1,2,3,4,5) assms, of s]
  by (simp add: spec_interpolate_full [OF POSES_full(3,4,5,6)])

lemma spec_lerp3_ends: "spec_lerp3 a b 0 = a" "spec_lerp3 a b 1 = b"
  by (simp_all add: spec_lerp3_def)

lemma spec_interpolate_ends:
  "spec_interpolate START_pose END_pose 0 = START_pose"
  "spec_interpolate START_pose END_pose 1 = END_pose"
  by (simp_all add: spec_interpolate_full [OF POSES_full(3,4,5,6)] spec_lerp3_ends)
     (simp_all add: START_pose_def END_pose_def)

lemma lerp_between:
  assumes "0 \<le> t" "t \<le> 1"
  shows "between a b (a + (b - a) * t)"
proof (cases "a \<le> b")
  case True
  then have lo: "0 \<le> (b - a) * t" and hi: "(b - a) * t \<le> b - a"
    using assms by (simp_all add: mult_right_le_one_le)
  show ?thesis
    unfolding between_def using True lo hi by arith
next
  case False
  then have lo: "0 \<le> (a - b) * t" and hi: "(a - b) * t \<le> a - b"
    using assms by (simp_all add: mult_right_le_one_le)
  have flip: "a + (b - a) * t = a - (a - b) * t"
    by (simp add: algebra_simps)
  show ?thesis
    unfolding between_def flip using False lo hi by arith
qed

lemma spec_lerp3_between:
  "0 \<le> t \<Longrightarrow> t \<le> 1 \<Longrightarrow> between3 a b (spec_lerp3 a b t)"
  by (simp add: between3_def spec_lerp3_def lerp_between)

lemma spec_interpolate_between:
  assumes "0 \<le> t" "t \<le> 1"
  shows "pose_between START_pose END_pose (spec_interpolate START_pose END_pose t)"
  using assms
  by (simp add: spec_interpolate_full [OF POSES_full(3,4,5,6)] pose_between_def
      spec_lerp3_between POSES_full between_def)

section \<open>The scroll timeline: interpolation between the two poses\<close>

text \<open>
  Claim C1. After \<open>init\<close> (start pose applied, timeline set up) on a page that has the
  section, for every progress \<open>p\<close> in \<open>[0, 1]\<close> and after any earlier scroll events, the
  camera state of a scroll event at \<open>p\<close> is, field by field (rig position, rig rotation,
  camera position, target, each in x, y and z, and the field of view), the linear
  interpolation \<open>start + (end - start) * p\<close> between the configured START and END poses,
  with no easing.
\<close>

theorem scroll_timeline_interpolates:
  assumes "0 \<le> p" "p \<le> 1" and "''#viewer-section'' \<in> set document"
  shows "\<exists>tline s'. init POSES s document = Inr (Some tline, s') \<and>
     (\<forall>ps. camera_state (scrollUpdate tline p (scroll_run tline ps s')) =
        spec_interpolate START_pose END_pose p)"
  using configured_scroll_state [OF assms(3), of s] clamp_unit [OF assms(1,2)] by auto

theorem scroll_timeline_interpolates_witness:
  "(0::real) \<le> 1 / 4 \<and> (1 / 4 :: real) \<le> 1
   \<and> ''#viewer-section'' \<in> set [''#viewer-section'']
   \<and> camera_state (scrollUpdate started_timeline (1 / 4) started_viewer) =
       spec_interpolate START_pose END_pose (1 / 4)"
proof -
  obtain tline s' where i: "init POSES initViewer [''#viewer-section''] = Inr (Some tline, s')"
    and r: "\<forall>ps. camera_state (scrollUpdate tline (1 / 4) (scroll_run tline ps s')) =
        spec_interpolate START_pose END_pose (1 / 4)"
    using scroll_timeline_interpolates [of "1 / 4" "[''#viewer-section'']" initViewer]
    by auto
  from i have "tline = started_timeline" "s' = started_viewer"
    by (simp_all add: init_started)
  moreover from r have "camera_state (scrollUpdate tline (1 / 4) (scroll_run tline [] s')) =
        spec_interpolate START_pose END_pose (1 / 4)" ..
  ultimately show ?thesis by simp
qed

text \<open>
  Claim C2. After \<open>init\<close> on a page that has the section, a scroll event at progress 0
  reproduces every field of the START pose exactly, and one at progress 1 every field of
  the END pose exactly, after any earlier scroll events.
\<close>

theorem scroll_timeline_endpoints:
  assumes "''#viewer-section'' \<in> set document"
  shows "\<exists>tline s'. init POSES s document = Inr (Some tline, s') \<and>
     (\<forall>ps. camera_state (scrollUpdate tline 0 (scroll_run tline ps s')) = START_pose \<and>
        camera_state (scrollUpdate tline 1 (scroll_run tline ps s')) = END_pose)"
  using configured_scroll_state [OF assms, of s] clamp_unit [of 0] clamp_unit [of 1]
  by (auto simp add: spec_interpolate_ends)

theorem scroll_timeline_endpoints_witness:
  "''#viewer-section'' \<in> set [''#viewer-section'']
   \<and> camera_state (scrollUpdate started_timeline 0 started_viewer) = START_pose
   \<and> camera_state (scrollUpdate started_timeline 1 started_viewer) = END_pose"
proof -
  obtain tline s' where i: "init POSES initViewer [''#viewer-section''] = Inr (Some tline, s')"
    and r: "\<forall>ps. camera_state (scrollUpdate tline 0 (scroll_run tline ps s')) = START_pose \<and>
        camera_state (scrollUpdate tline 1 (scroll_run tline ps s')) = END_pose"
    using scroll_timeline_endpoints [of "[''#viewer-section'']" initViewer]
    by auto
  from i have "tline = started_timeline" "s' = started_viewer"
    by (simp_all add: init_started)
  moreover from r have "camera_state (scrollUpdate tline 0 (scroll_run tline [] s')) = START_pose \<and>
        camera_state (scrollUpdate tline 1 (scroll_run tline [] s')) = END_pose" ..
  ultimately show ?thesis by simp
qed

text \<open>
  Claim C6. After \<open>init\<close> on a page that has the section, for all progress values
  \<open>p1 < p2\<close> in \<open>[0, 1]\<close>, every scalar field of the camera state at \<open>p1\<close> and at \<open>p2\<close> lies
  between the values of that field in the START and the END pose, both included: the
  interpolation does not overshoot.
\<close>

theorem scroll_timeline_no_overshoot:
  assumes "0 \<le> p1" "p1 < p2" "p2 \<le> 1" and "''#viewer-section'' \<in> set document"
  shows "\<exists>tline s'. init POSES s document = Inr (Some tline, s') \<and>
     (\<forall>ps. pose_between START_pose END_pose
              (camera_state (scrollUpdate tline p1 (scroll_run tline ps s'))) \<and>
            pose_between START_pose END_pose
              (camera_state (scrollUpdate tline p2 (scroll_run tline ps s'))))"
proof -
  have c: "clamp_progress p1 = p1" "clamp_progress p2 = p2"
    using assms(1-3) by (simp_all add: clamp_unit)
  have "pose_between START_pose END_pose (spec_interpolate START_pose END_pose p1)"
    and "pose_between START_pose END_pose (spec_interpolate START_pose END_pose p2)"
    using assms(1-3) by (simp_all add: spec_interpolate_between)
  then show ?thesis
    using configured_scroll_state [OF assms(4), of s] c by auto
qed

theorem scroll_timeline_no_overshoot_witness:
  "(0::real) \<le> 1 / 4 \<and> (1 / 4 :: real) < 3 / 4 \<and> (3 / 4 :: real) \<le> 1
   \<and> ''#viewer-section'' \<in> set [''#viewer-section'']
   \<and> pose_between START_pose END_pose
        (camera_state (scrollUpdate started_timeline (1 / 4) started_viewer))
   \<and> pose_between START_pose END_pose
        (camera_state (scrollUpdate started_timeline (3 / 4) started_viewer))"
proof -
  obtain tline s' where i: "init POSES initViewer [''#viewer-section''] = Inr (Some tline, s')"
    and r: "\<forall>ps. pose_between START_pose END_pose
              (camera_state (scrollUpdate tline (1 / 4) (scroll_run tline ps s'))) \<and>
            pose_between START_pose END_pose
              (camera_state (scrollUpdate tline (3 / 4) (scroll_run tline ps s')))"
    using scroll_timeline_no_overshoot [of "1 / 4" "3 / 4" "[''#viewer-section'']" initViewer]
    by auto
  from i have "tline = started_timeline" "s' = started_viewer"
    by (simp_all add: init_started)
  moreover from r have "pose_between START_pose END_pose
              (camera_state (scrollUpdate tline (1 / 4) (scroll_run tline [] s'))) \<and>
            pose_between START_pose END_pose
              (camera_state (scrollUpdate tline (3 / 4) (scroll_run tline [] s')))" ..
  ultimately show ?thesis by simp
qed

section \<open>The example scenario at the midpoint\<close>

text \<open>
  Claim C4. With a START pose of target \<open>(-0.196, 0.0001, 0.209)\<close> and fov 30 and an END
  pose of target \<open>(0.049, 0.015, 0.112)\<close> and fov 30 as the two poses, whatever their other
  fields, after \<open>init\<close> on a page that has the section the interpolation at progress 0.5
  yields the target \<open>(-0.0735, 0.00755, 0.1605)\<close> and fov 30, after any earlier scroll
  events.
\<close>

theorem example_midpoint:
  assumes "START P = Some a" "END P = Some b"
    and "target a = \<lparr>vx = - 0.196, vy = 0.0001, vz = 0.209\<rparr>" "fov a = Some 30"
    and "target b = \<lparr>vx = 0.049, vy = 0.015, vz = 0.112\<rparr>" "fov b = Some 30"
    and "''#viewer-section'' \<in> set document"
  shows "\<exists>tline s'. init P s document = Inr (Some tline, s') \<and>
     (\<forall>ps. target (camera_state (scrollUpdate tline (1 / 2) (scroll_run tline ps s'))) =
             \<lparr>vx = - 0.0735, vy = 0.00755, vz = 0.1605\<rparr> \<and>
           fov (camera_state (scrollUpdate tline (1 / 2) (scroll_run tline ps s'))) = Some 30)"
proof -
  have mid: "spec_lerp3 (target a) (target b) (clamp_progress (1 / 2)) =
      \<lparr>vx = - 0.0735, vy = 0.00755, vz = 0.1605\<rparr>"
    by (simp add: assms(3,5) spec_lerp3_def clamp_progress_def)
  show ?thesis
    using init_scroll_target [OF assms(1,2,4,7), of s]
    by (auto simp add: mid)
qed

theorem example_midpoint_witness:
  "''#viewer-section'' \<in> set [''#viewer-section'']
   \<and> (case init SPEC_EXAMPLE initViewer [''#viewer-section''] of
        Inr (Some tline, s') \<Rightarrow>
          target (camera_state (scrollUpdate tline (1 / 2) s')) =
            \<lparr>vx = - 0.0735, vy = 0.00755, vz = 0.1605\<rparr>
          \<and> fov (camera_state (scrollUpdate tline (1 / 2) s')) = Some 30
      | _ \<Rightarrow> False)"
proof -
  define a where "a = START_pose\<lparr>target := \<lparr>vx = - 0.196, vy = 0.0001, vz = 0.209\<rparr>\<rparr>"
  define b where "b = END_pose\<lparr>target := \<lparr>vx = 0.049, vy = 0.015, vz = 0.112\<rparr>\<rparr>"
  have P: "START SPEC_EXAMPLE = Some a" "END SPEC_EXAMPLE = Some b"
    by (simp_all add: SPEC_EXAMPLE_def a_def b_def)
  have ta: "target a = \<lparr>vx = - 0.196, vy = 0.0001, vz = 0.209\<rparr>" and fa: "fov a = Some 30"
    and tb: "target b = \<lparr>vx = 0.049, vy = 0.015, vz = 0.112\<rparr>" and fb: "fov b = Some 30"
    by (simp_all add: a_def b_def POSES_full)
  have doc: "''#viewer-section'' \<in> set [''#viewer-section'']"
    by simp
  obtain tline s' where i: "init SPEC_EXAMPLE initViewer [''#viewer-section''] = Inr (Some tline, s')"
    and r: "\<forall>ps. target (camera_state (scrollUpdate tline (1 / 2) (scroll_run tline ps s'))) =
             \<lparr>vx = - 0.0735, vy = 0.00755, vz = 0.1605\<rparr> \<and>
           fov (camera_state (scrollUpdate tline (1 / 2) (scroll_run tline ps s'))) = Some 30"
    using example_midpoint [OF P ta fa tb fb doc, of initViewer] by blast
  from r have "target (camera_state (scrollUpdate tline (1 / 2) (scroll_run tline [] s'))) =
             \<lparr>vx = - 0.0735, vy = 0.00755, vz = 0.1605\<rparr> \<and>
           fov (camera_state (scrollUpdate tline (1 / 2) (scroll_run tline [] s'))) = Some 30" ..
  with i show ?thesis by simp
qed

section \<open>Missing poses\<close>

text \<open>
  Claim C3, as stated: constructing the mapper when the START or the END pose is missing
  raises a ConfigurationError before any apply call, rather than silently skipping the
  pose. It fails. With START missing, \<open>init\<close> returns normally: \<open>applyPose\<close> skips the pose
  and leaves the viewer as it was, and the timeline is built. With END missing, \<open>applyPose\<close>
  skips it as well, and \<open>init\<close> stops with a TypeError, after the start pose has been
  applied; no ConfigurationError is raised.
\<close>

theorem missing_pose_counterexample:
  "\<not> isl (init (POSES\<lparr>START := None\<rparr>) initViewer [''#viewer-section''])
   \<and> applyPose initViewer (Some applyTarget) (START (POSES\<lparr>START := None\<rparr>)) = initViewer
   \<and> applyPose initViewer (Some applyTarget) (END (POSES\<lparr>END := None\<rparr>)) = initViewer
   \<and> init (POSES\<lparr>END := None\<rparr>) initViewer [''#viewer-section''] = Inl TypeError
   \<and> TypeError \<noteq> ConfigurationError"
  by (simp add: init_def setupScrollTimeline_def querySelector_def applyStartPose_def
      applyPose_def POSES_def Let_def)

text \<open>
  Claim C3, amended. A missing pose never raises a ConfigurationError: neither the
  construction of the timeline nor \<open>init\<close> ever stops with one. \<open>applyPose\<close> called with a
  missing pose returns silently and leaves the viewer unchanged. The construction of the
  timeline does not read the START pose at all; when the END pose is missing and the
  section is in the page, it stops with JavaScript's TypeError.
\<close>

theorem missing_pose_no_configuration_error:
  "setupScrollTimeline P s cb sel document \<noteq> Inl ConfigurationError
   \<and> init P s document \<noteq> Inl ConfigurationError
   \<and> applyPose s cb None = s
   \<and> setupScrollTimeline (P\<lparr>START := a\<rparr>) s cb sel document =
       setupScrollTimeline P s cb sel document
   \<and> (END P = None \<and> sel \<in> set document \<longrightarrow>
        setupScrollTimeline P s cb sel document = Inl TypeError)"
  by (auto simp add: init_def setupScrollTimeline_def querySelector_def applyPose_def Let_def
      split: option.splits sum.splits)

theorem missing_pose_no_configuration_error_witness:
  "setupScrollTimeline (POSES\<lparr>END := None\<rparr>) initViewer (Some applyTarget) ''#viewer-section''
      [''#viewer-section''] = Inl TypeError
   \<and> setupScrollTimeline (POSES\<lparr>END := None\<rparr>) initViewer (Some applyTarget) ''#viewer-section''
      [''#viewer-section''] \<noteq> Inl ConfigurationError"
  using missing_pose_no_configuration_error [of "POSES\<lparr>END := None\<rparr>" initViewer
      "Some applyTarget" "''#viewer-section''" "[''#viewer-section'']"]
  by simp

section \<open>Progress outside the unit interval\<close>

text \<open>
  Claim C8, as stated: for a progress outside \<open>[0, 1]\<close> the mapper clamps the value, emits
  a warning and proceeds, and the camera state is the one of the nearest progress in
  range. No warning is emitted: after a scroll event at progress 2 the console holds the
  three messages of \<open>init\<close> and nothing else.
\<close>

theorem out_of_range_progress_counterexample:
  "init POSES initViewer [''#viewer-section''] = Inr (Some started_timeline, started_viewer)
   \<and> console (scrollUpdate started_timeline 2 started_viewer) =
       [ConsoleLog [Str ''Start pose applied''],
        ConsoleLog [Str ''ScrollTrigger timeline created (pose-based with zoom)''],
        ConsoleLog [Str ''ScrollTrigger timeline created (pose-based)'']]"
proof -
  have "tl_applyTarget started_timeline \<in> {None, Some applyTarget}"
    by (simp add: started_timeline_def)
  then have "console (timeline_render started_timeline 2 started_viewer) = console started_viewer"
    by (rule timeline_render_console)
  then show ?thesis
    by (simp add: init_started scrollUpdate_def scrollTrigger_onUpdate_eq started_viewer_def)
qed

text \<open>
  Claim C8, amended. For any progress outside \<open>[0, 1]\<close> the value is clamped into
  \<open>[0, 1]\<close> and the computation proceeds rather than failing, without any warning: the
  scroll event leaves the viewer, console included, exactly as the scroll event at the
  nearest progress in range does (0 for a negative progress, 1 for one above 1), and with
  the closure \<open>applyTarget\<close> or no callback the console is the same after the event as
  before.
\<close>

theorem out_of_range_progress_clamped:
  assumes "p < 0 \<or> 1 < p"
  shows "scrollUpdate tline p s = scrollUpdate tline (if p < 0 then 0 else 1) s
     \<and> (tl_applyTarget tline \<in> {None, Some applyTarget} \<longrightarrow>
          console (scrollUpdate tline p s) = console s)"
proof -
  have "clamp_progress p = (if p < 0 then 0 else 1)"
    using assms by (auto simp add: clamp_outside)
  then have "timeline_render tline p s = timeline_render tline (if p < 0 then 0 else 1) s"
    using timeline_render_clamped [of tline p s] by simp
  then show ?thesis
    by (simp add: scrollUpdate_def scrollTrigger_onUpdate_eq timeline_render_console)
qed

theorem out_of_range_progress_clamped_witness:
  "((2::real) < 0 \<or> (1::real) < 2)
   \<and> scrollUpdate started_timeline 2 started_viewer =
       scrollUpdate started_timeline 1 started_viewer
   \<and> camera_state (scrollUpdate started_timeline 2 started_viewer) = END_pose
   \<and> console (scrollUpdate started_timeline 2 started_viewer) = console started_viewer"
proof -
  have cb: "tl_applyTarget started_timeline \<in> {None, Some applyTarget}"
    by (simp add: started_timeline_def)
  have out: "(2::real) < 0 \<or> (1::real) < 2"
    by simp
  have "\<exists>tline s'. init POSES initViewer [''#viewer-section''] = Inr (Some tline, s') \<and>
     (\<forall>ps p. camera_state (scrollUpdate tline p (scroll_run tline ps s')) =
        spec_interpolate START_pose END_pose (clamp_progress p))"
    by (rule configured_scroll_state) simp
  then have "\<forall>ps p. camera_state
        (scrollUpdate started_timeline p (scroll_run started_timeline ps started_viewer)) =
        spec_interpolate START_pose END_pose (clamp_progress p)"
    by (simp add: init_started)
  then have "camera_state
        (scrollUpdate started_timeline 1 (scroll_run started_timeline [] started_viewer)) =
        spec_interpolate START_pose END_pose (clamp_progress 1)"
    by blast
  then have e: "camera_state (scrollUpdate started_timeline 1 started_viewer) = END_pose"
    by (simp add: clamp_unit spec_interpolate_ends)
  note c = out_of_range_progress_clamped [OF out, of started_timeline started_viewer]
  from c have eq: "scrollUpdate started_timeline 2 started_viewer =
      scrollUpdate started_timeline 1 started_viewer"
    by simp
  from c cb have con: "console (scrollUpdate started_timeline 2 started_viewer) =
      console started_viewer"
    by blast
  from eq e have "camera_state (scrollUpdate started_timeline 2 started_viewer) = END_pose"
    by simp
  with out eq con show ?thesis
    by blast
qed

end
